theory Spec2Isabelle
  imports
    Main
    "HOL-Library.Char_ord"
    "HOL-Library.List_Lexorder"
    "HOL-Library.Sublist"
begin

section \<open>Nextflow developer tools: target discovery and command dispatch\<close>

text \<open>
  A shallow embedding of \<^verbatim>\<open>mcp-nextflow.py\<close>. Python \<^verbatim>\<open>str\<close> values are
  modelled as \<^typ>\<open>string\<close>; a \<^typ>\<open>char\<close> stands for a code point below 256.
  The file system, the user database behind \<^verbatim>\<open>os.path.expanduser\<close> and the
  programs started by \<^verbatim>\<open>subprocess.run\<close> are outside the program and enter the
  model as a parameter (the record \<open>world\<close>). The module global
  \<^verbatim>\<open>NEXTFLOW_DIR\<close> and the sequence of \<^verbatim>\<open>subprocess.run\<close> calls made so far are
  the state that the tools pass along. Calls of \<^verbatim>\<open>logger\<close> and of the MCP context
  (\<^verbatim>\<open>ctx.info\<close>, \<^verbatim>\<open>ctx.error\<close>) only emit messages: they neither change what a
  tool returns nor what it runs, and are left out.
\<close>

subsection \<open>Characters and text helpers\<close>

definition newline :: char where
  "newline = CHR 0x0A"

definition apostrophe :: string where
  "apostrophe = [CHR 0x27]"

text \<open>The character class \<^verbatim>\<open>[a-zA-Z0-9_-]\<close> of the target pattern.\<close>

definition is_name_char :: "char \<Rightarrow> bool" where
  "is_name_char c \<longleftrightarrow>
     (CHR ''a'' \<le> c \<and> c \<le> CHR ''z'') \<or> (CHR ''A'' \<le> c \<and> c \<le> CHR ''Z'') \<or>
     (CHR ''0'' \<le> c \<and> c \<le> CHR ''9'') \<or> c = CHR ''_'' \<or> c = CHR ''-''"

text \<open>
  The class \<^verbatim>\<open>\s\<close> of a \<^verbatim>\<open>str\<close> pattern, which is also the whitespace of
  \<^verbatim>\<open>str.split()\<close>: tab, line feed, vertical tab, form feed, carriage return, the
  separators 0x1C to 0x1F, space, NEL (0x85) and the no-break space (0xA0).
\<close>

definition is_space :: "char \<Rightarrow> bool" where
  "is_space c \<longleftrightarrow>
     (CHR 0x09 \<le> c \<and> c \<le> CHR 0x0D) \<or> (CHR 0x1C \<le> c \<and> c \<le> CHR 0x20) \<or>
     c = CHR 0x85 \<or> c = CHR 0xA0"

text \<open>Python's \<^verbatim>\<open>str(n)\<close> for an integer: decimal digits, with a minus sign.\<close>

definition digit_char :: "nat \<Rightarrow> char" where
  "digit_char d = char_of (48 + d)"

function str_nat :: "nat \<Rightarrow> string" where
  "str_nat n = (if n < 10 then [digit_char n] else str_nat (n div 10) @ [digit_char (n mod 10)])"
  by pat_completeness auto
termination
  by (relation "measure id") auto

declare str_nat.simps [simp del]

definition str_int :: "int \<Rightarrow> string" where
  "str_int i = (if i < 0 then CHR ''-'' # str_nat (nat (- i)) else str_nat (nat i))"

text \<open>\<^verbatim>\<open>sep.join(xs)\<close>\<close>

fun join :: "string \<Rightarrow> string list \<Rightarrow> string" where
  "join sep [] = []"
| "join sep [x] = x"
| "join sep (x # y # ys) = x @ sep @ join sep (y # ys)"

text \<open>
  \<^verbatim>\<open>s.split()\<close> without arguments: the maximal runs of non-whitespace characters,
  in order. The first argument is the word read so far.
\<close>

fun split_ws :: "string \<Rightarrow> string \<Rightarrow> string list" where
  "split_ws acc [] = (if acc = [] then [] else [acc])"
| "split_ws acc (c # cs) =
     (if is_space c then (if acc = [] then split_ws [] cs else acc # split_ws [] cs)
      else split_ws (acc @ [c]) cs)"

definition py_split :: "string \<Rightarrow> string list" where
  "py_split s = split_ws [] s"

text \<open>
  \<^verbatim>\<open>os.path.join(a, b)\<close> on POSIX: an absolute \<open>b\<close> replaces \<open>a\<close>; otherwise the two
  are joined by one slash, unless \<open>a\<close> is empty or already ends in one.
\<close>

definition os_path_join :: "string \<Rightarrow> string \<Rightarrow> string" where
  "os_path_join a b =
     (if b \<noteq> [] \<and> hd b = CHR ''/'' then b
      else if a = [] \<or> last a = CHR ''/'' then a @ b
      else a @ ''/'' @ b)"

subsection \<open>The target pattern and \<^verbatim>\<open>re.findall\<close>\<close>

text \<open>
  The pattern is \<^verbatim>\<open>^([a-zA-Z0-9_-]+):\s*(?:#.*)?$\<close> under \<^verbatim>\<open>re.MULTILINE\<close>.

  \<open>match_tail\<close> runs the part \<^verbatim>\<open>\s*(?:#.*)?$\<close> of the backtracking matcher on the
  text that follows the colon and returns the text left after the match. The greedy
  \<^verbatim>\<open>\s*\<close> first takes a whitespace character (a line feed is one) and gives it back
  only when the rest fails; with nothing more taken by \<^verbatim>\<open>\s*\<close>, the optional group
  takes a comment up to the end of its line when a \<^verbatim>\<open>#\<close> follows, and \<^verbatim>\<open>$\<close> holds at
  the end of the text and before a line feed.
\<close>

fun match_tail :: "string \<Rightarrow> string option" where
  "match_tail [] = Some []"
| "match_tail (c # cs) =
     (if is_space c then
        (case match_tail cs of
           Some r \<Rightarrow> Some r
         | None \<Rightarrow> if c = newline then Some (c # cs) else None)
      else if c = CHR ''#'' then Some (dropWhile (\<lambda>x. x \<noteq> newline) cs)
      else None)"

text \<open>
  \<open>match_here\<close> is the whole pattern at a position where \<^verbatim>\<open>^\<close> holds: the group is
  the longest run of name characters (a shorter one is followed by a name character,
  never by the colon), it must not be empty, and a colon must follow. The result is
  the group and the text left after the match.
\<close>

definition match_here :: "string \<Rightarrow> (string \<times> string) option" where
  "match_here s =
     (let name = takeWhile is_name_char s; rest = dropWhile is_name_char s in
      if name = [] then None
      else (case rest of
              [] \<Rightarrow> None
            | c # t \<Rightarrow>
                if c = CHR '':'' then
                  (case match_tail t of None \<Rightarrow> None | Some r \<Rightarrow> Some (name, r))
                else None))"

text \<open>
  \<open>findall_from bol s\<close> is the scan of \<^verbatim>\<open>re.findall\<close> over the remaining text \<open>s\<close>;
  \<open>bol\<close> says whether \<^verbatim>\<open>^\<close> holds at the current position (the start of the text
  or just after a line feed). A match yields its group and the scan goes on where
  the match ended; otherwise the scan moves one character on. No match is empty.
\<close>

function findall_from :: "bool \<Rightarrow> string \<Rightarrow> string list" where
  "findall_from bol [] = []"
| "findall_from bol (c # cs) =
     (case (if bol then match_here (c # cs) else None) of
        Some (name, r) \<Rightarrow>
          name # findall_from (last (take (length (c # cs) - length r) (c # cs)) = newline) r
      | None \<Rightarrow> findall_from (c = newline) cs)"
  by pat_completeness auto
termination
proof -
  have tail: "length r \<le> length t" if "match_tail t = Some r" for t r
    using that
  proof (induction t arbitrary: r)
    case Nil
    then show ?case by simp
  next
    case (Cons c cs)
    show ?case
    proof (cases "is_space c")
      case True
      then show ?thesis
        using Cons by (cases "match_tail cs") (auto split: if_splits dest: le_SucI)
    next
      case False
      then have "r = dropWhile (\<lambda>x. x \<noteq> newline) cs"
        using Cons.prems by (simp split: if_splits)
      then show ?thesis
        by (simp add: le_SucI length_dropWhile_le)
    qed
  qed
  have here: "length r < length s" if m: "match_here s = Some (n, r)" for s n r
  proof -
    from m obtain t where rest: "dropWhile is_name_char s = CHR '':'' # t"
      and t: "match_tail t = Some r"
      by (auto simp: match_here_def Let_def split: if_splits list.splits option.splits)
    have "length (dropWhile is_name_char s) \<le> length s"
      by (rule length_dropWhile_le)
    with rest have "length t < length s" by simp
    with tail [OF t] show ?thesis by simp
  qed
  show ?thesis
    by (relation "measure (\<lambda>(bol, s). length s)") (auto split: if_splits dest: here)
qed

declare findall_from.simps(2) [simp del]

definition findall :: "string \<Rightarrow> string list" where
  "findall content = findall_from True content"

subsection \<open>The world outside the program, and the program's state\<close>

text \<open>
  A path names a directory, a regular file or nothing. Reading a regular file as text
  (\<^verbatim>\<open>open(path, "r")\<close> and \<^verbatim>\<open>f.read()\<close>) either raises, \<open>Inl\<close> with the message of
  the exception, or returns the text, \<open>Inr\<close>.
\<close>

datatype fnode = Directory | RegularFile "string + string"

text \<open>What \<^verbatim>\<open>subprocess.run(..., capture_output=True, text=True)\<close> returns.\<close>

record completed_process =
  returncode :: int
  stdout :: string
  stderr :: string

text \<open>
  \<open>process w argv cwd\<close> is the outcome of \<^verbatim>\<open>subprocess.run(argv, cwd=cwd)\<close>: \<open>Inl\<close>
  with \<^verbatim>\<open>str(e)\<close> when the call raises an exception \<open>e\<close>, \<open>Inr\<close> with the completed
  process otherwise (a nonzero exit code does not raise).
\<close>

record world =
  node :: "string \<Rightarrow> fnode option"
  expanduser :: "string \<Rightarrow> string"
  process :: "string list \<Rightarrow> string \<Rightarrow> string + completed_process"

text \<open>
  \<open>run_calls\<close> lists, oldest first, the argument vector and working directory of
  every \<^verbatim>\<open>subprocess.run\<close> call made so far.
\<close>

record state =
  NEXTFLOW_DIR :: string
  run_calls :: "(string list \<times> string) list"

definition os_path_isfile :: "world \<Rightarrow> string \<Rightarrow> bool" where
  "os_path_isfile w p = (case node w p of Some (RegularFile _) \<Rightarrow> True | _ \<Rightarrow> False)"

definition os_path_isdir :: "world \<Rightarrow> string \<Rightarrow> bool" where
  "os_path_isdir w p = (case node w p of Some Directory \<Rightarrow> True | _ \<Rightarrow> False)"

definition read_text :: "world \<Rightarrow> string \<Rightarrow> string + string" where
  "read_text w p =
     (case node w p of
        Some (RegularFile c) \<Rightarrow> c
      | Some Directory \<Rightarrow> Inl ''[Errno 21] Is a directory''
      | None \<Rightarrow> Inl ''[Errno 2] No such file or directory'')"

definition subprocess_run ::
  "world \<Rightarrow> state \<Rightarrow> string list \<Rightarrow> (string + completed_process) \<times> state" where
  "subprocess_run w s argv =
     (process w argv (NEXTFLOW_DIR s),
      s\<lparr>run_calls := run_calls s @ [(argv, NEXTFLOW_DIR s)]\<rparr>)"

text \<open>\<^verbatim>\<open>s.strip()\<close>\<close>

definition py_strip :: "string \<Rightarrow> string" where
  "py_strip s = rev (dropWhile is_space (rev (dropWhile is_space s)))"

subsection \<open>Target discovery\<close>

definition get_makefile_targets :: "world \<Rightarrow> state \<Rightarrow> string list" where
  "get_makefile_targets w s =
     (let makefile_path = os_path_join (NEXTFLOW_DIR s) ''Makefile'' in
      if \<not> os_path_isfile w makefile_path then []
      else (case read_text w makefile_path of
              Inr content \<Rightarrow> findall content
            | Inl e \<Rightarrow> []))"

definition list_make_targets :: "world \<Rightarrow> state \<Rightarrow> string" where
  "list_make_targets w s =
     (let targets = get_makefile_targets w s in
      if targets = [] then
        ''Could not find any make targets in '' @ NEXTFLOW_DIR s
          @ ''/Makefile. Please check if the Nextflow directory is set correctly.''
      else
        ''Available make targets:\<newline>''
          @ join ''\<newline>'' (map (\<lambda>target. ''- '' @ target) (sort targets)))"

subsection \<open>The build directory\<close>

definition set_nextflow_directory :: "world \<Rightarrow> state \<Rightarrow> string \<Rightarrow> string \<times> state" where
  "set_nextflow_directory w s path =
     (let expanded_path = expanduser w path in
      if \<not> os_path_isdir w expanded_path then
        (''Error: Directory '' @ apostrophe @ expanded_path @ apostrophe @ '' does not exist.'', s)
      else if \<not> (os_path_isfile w (os_path_join expanded_path ''Makefile'')
                \<or> os_path_isfile w (os_path_join expanded_path ''build.gradle'')) then
        (''Warning: '' @ apostrophe @ expanded_path @ apostrophe
           @ '' might not be a Nextflow repository. Setting anyway.'',
         s\<lparr>NEXTFLOW_DIR := expanded_path\<rparr>)
      else
        (''Nextflow directory set to: '' @ expanded_path, s\<lparr>NEXTFLOW_DIR := expanded_path\<rparr>))"

definition get_nextflow_directory :: "state \<Rightarrow> string" where
  "get_nextflow_directory s = ''Current Nextflow directory: '' @ NEXTFLOW_DIR s"

subsection \<open>Tools that run a process\<close>

definition run_make_command :: "world \<Rightarrow> state \<Rightarrow> string \<Rightarrow> string \<times> state" where
  "run_make_command w s command =
     (let available_targets = get_makefile_targets w s in
      if available_targets = [] then
        (''Could not read Makefile targets from '' @ NEXTFLOW_DIR s
           @ ''/Makefile. Please check if the Nextflow directory is set correctly.'', s)
      else if command \<notin> set available_targets then
        (''Error: '' @ apostrophe @ command @ apostrophe
           @ '' is not a valid make target. Available targets are:\<newline>''
           @ join ''\<newline>'' (map (\<lambda>target. ''- '' @ target) (sort available_targets)), s)
      else
        (case subprocess_run w s [''make'', command] of
           (Inl e, s') \<Rightarrow> (''Exception running make '' @ command @ '': '' @ e, s')
         | (Inr p, s') \<Rightarrow>
             if returncode p \<noteq> 0 then
               (''Command '' @ apostrophe @ ''make '' @ command @ apostrophe
                  @ '' failed with exit code '' @ str_int (returncode p)
                  @ '':\<newline>Stdout: '' @ stdout p @ ''\<newline>Stderr: '' @ stderr p, s')
             else
               (''Command '' @ apostrophe @ ''make '' @ command @ apostrophe
                  @ '' succeeded:\<newline>'' @ stdout p, s')))"

definition run_specific_test :: "world \<Rightarrow> state \<Rightarrow> string \<Rightarrow> string \<times> state" where
  "run_specific_test w s test_path =
     (case subprocess_run w s [''./gradlew'', ''test'', ''--tests'', test_path] of
        (Inl e, s') \<Rightarrow> (''Exception running test '' @ test_path @ '': '' @ e, s')
      | (Inr p, s') \<Rightarrow>
          if returncode p \<noteq> 0 then
            (''Test failed with exit code '' @ str_int (returncode p)
               @ '':\<newline>Stdout: '' @ stdout p @ ''\<newline>Stderr: '' @ stderr p, s')
          else (''Test completed successfully:\<newline>'' @ stdout p, s'))"

definition build_nextflow :: "world \<Rightarrow> state \<Rightarrow> string \<times> state" where
  "build_nextflow w s =
     (let available_targets = get_makefile_targets w s;
          build_target =
            (if ''compile'' \<notin> set available_targets then
               (if ''build'' \<in> set available_targets then Some ''build'' else None)
             else Some ''compile'')
      in case build_target of
           None \<Rightarrow>
             (''Error: Neither '' @ apostrophe @ ''compile'' @ apostrophe @ '' nor ''
                @ apostrophe @ ''build'' @ apostrophe
                @ '' targets found in Makefile. Available targets are:\<newline>''
                @ join ''\<newline>'' (map (\<lambda>target. ''- '' @ target) (sort available_targets)), s)
         | Some target \<Rightarrow>
             (case subprocess_run w s [''make'', target] of
                (Inl e, s') \<Rightarrow> (''Exception during build: '' @ e, s')
              | (Inr p, s') \<Rightarrow>
                  if returncode p \<noteq> 0 then
                    (''Build failed with exit code '' @ str_int (returncode p)
                       @ '':\<newline>Stdout: '' @ stdout p @ ''\<newline>Stderr: '' @ stderr p, s')
                  else (''Build succeeded:\<newline>'' @ stdout p, s')))"

definition run_integration_tests :: "world \<Rightarrow> state \<Rightarrow> string \<times> state" where
  "run_integration_tests w s =
     (case subprocess_run w s [''make'', ''test''] of
        (Inl e, s') \<Rightarrow> (''Exception running integration tests: '' @ e, s')
      | (Inr p, s') \<Rightarrow>
          if returncode p \<noteq> 0 then
            (''Integration tests failed with exit code '' @ str_int (returncode p)
               @ '':\<newline>Stdout: '' @ stdout p @ ''\<newline>Stderr: '' @ stderr p, s')
          else (''Integration tests completed:\<newline>'' @ stdout p, s'))"

definition get_nextflow_version :: "world \<Rightarrow> state \<Rightarrow> string \<times> state" where
  "get_nextflow_version w s =
     (case subprocess_run w s [''./nextflow'', ''-version''] of
        (Inl e, s') \<Rightarrow> (''Exception getting Nextflow version: '' @ e, s')
      | (Inr p, s') \<Rightarrow>
          if returncode p \<noteq> 0 then
            (''Error getting version. Exit code '' @ str_int (returncode p)
               @ '': '' @ stderr p, s')
          else (py_strip (stdout p), s'))"

text \<open>
  The second half of \<^verbatim>\<open>run_development_nextflow\<close> (from the comment
  ``Run Nextflow using launch.sh''): the launch script with the words of the command.
\<close>

definition launch :: "world \<Rightarrow> state \<Rightarrow> string \<Rightarrow> string \<times> state" where
  "launch w s command =
     (let cmd = [''./launch.sh''] @ (if command \<noteq> [] then py_split command else []) in
      case subprocess_run w s cmd of
        (Inl e, s') \<Rightarrow> (''Exception during Nextflow execution: '' @ e, s')
      | (Inr p, s') \<Rightarrow>
          if returncode p \<noteq> 0 then
            (''Development Nextflow execution failed with exit code '' @ str_int (returncode p)
               @ '':\<newline>Stdout: '' @ stdout p @ ''\<newline>Stderr: '' @ stderr p, s')
          else (''Development Nextflow execution succeeded:\<newline>'' @ stdout p, s'))"

definition run_development_nextflow :: "world \<Rightarrow> state \<Rightarrow> string \<Rightarrow> string \<times> state" where
  "run_development_nextflow w s command =
     (let launch_script = os_path_join (NEXTFLOW_DIR s) ''launch.sh'' in
      if \<not> os_path_isfile w launch_script then
        (''Error: launch.sh script not found at '' @ launch_script
           @ ''. Make sure the Nextflow directory is correct.'', s)
      else
        (let available_targets = get_makefile_targets w s in
         if ''compile'' \<in> set available_targets then
           (case subprocess_run w s [''make'', ''compile''] of
              (Inl e, s') \<Rightarrow> (''Exception during compilation: '' @ e, s')
            | (Inr p, s') \<Rightarrow>
                if returncode p \<noteq> 0 then
                  (''Failed to compile Nextflow before running:\<newline>Exit code: ''
                     @ str_int (returncode p)
                     @ ''\<newline>Stdout: '' @ stdout p @ ''\<newline>Stderr: '' @ stderr p, s')
                else launch w s' command)
         else launch w s command))"

definition run_plugin_test ::
  "world \<Rightarrow> state \<Rightarrow> string \<Rightarrow> string option \<Rightarrow> string \<times> state" where
  "run_plugin_test w s module class_name =
     (let cmd = [''make'', ''test''] @ [''module='' @ module]
                @ (case class_name of
                     Some cn \<Rightarrow> if cn \<noteq> [] then [''class='' @ cn] else []
                   | None \<Rightarrow> [])
      in case subprocess_run w s cmd of
           (Inl e, s') \<Rightarrow> (''Exception during plugin test: '' @ e, s')
         | (Inr p, s') \<Rightarrow>
             if returncode p \<noteq> 0 then
               (''Plugin test failed with exit code '' @ str_int (returncode p)
                  @ '':\<newline>Stdout: '' @ stdout p @ ''\<newline>Stderr: '' @ stderr p, s')
             else (''Plugin test completed successfully:\<newline>'' @ stdout p, s'))"

subsection \<open>The specification's view of discovery: declaration lines\<close>

text \<open>
  The specification describes discovery line by line. \<open>split_lines\<close> cuts a text at
  its line feeds, as \<^verbatim>\<open>content.split("\n")\<close> does.
\<close>

function split_lines :: "string \<Rightarrow> string list" where
  "split_lines s =
     takeWhile (\<lambda>x. x \<noteq> newline) s
       # (case dropWhile (\<lambda>x. x \<noteq> newline) s of [] \<Rightarrow> [] | c # u \<Rightarrow> split_lines u)"
  by pat_completeness auto
termination
proof (relation "measure length")
  show "wf (measure length)" by simp
next
  fix s :: string and c u
  assume "dropWhile (\<lambda>x. x \<noteq> newline) s = c # u"
  then have "length (c # u) \<le> length s"
    using length_dropWhile_le [of "\<lambda>x. x \<noteq> newline" s] by simp
  then show "(u, s) \<in> measure length" by simp
qed

declare split_lines.simps [simp del]

text \<open>
  \<open>line_target l\<close> is the name that the line \<open>l\<close> declares, if any: the line is a
  nonempty run of name characters, a colon, whitespace, and then nothing more or a
  comment starting with \<^verbatim>\<open>#\<close>.
\<close>

definition line_target :: "string \<Rightarrow> string option" where
  "line_target l =
     (let name = takeWhile is_name_char l; rest = dropWhile is_name_char l in
      if name \<noteq> [] \<and> take 1 rest = '':''
         \<and> (let t = dropWhile is_space (drop 1 rest) in t = [] \<or> hd t = CHR ''#'')
      then Some name else None)"

text \<open>
  Two notions used in the proofs: the scan of the lines after the current one, and a
  well-formed remainder of a declaration line.
\<close>

definition rest_scan :: "string \<Rightarrow> string list" where
  "rest_scan s =
     (case dropWhile (\<lambda>x. x \<noteq> newline) s of [] \<Rightarrow> [] | c # u \<Rightarrow> findall_from True u)"

definition tail_ok :: "string \<Rightarrow> bool" where
  "tail_ok t = (let u = dropWhile is_space t in u = [] \<or> hd u = CHR ''#'')"

subsection \<open>Observing what a tool ran and reported\<close>

text \<open>
  \<open>new_calls s s'\<close> are the \<^verbatim>\<open>subprocess.run\<close> calls made between the states \<open>s\<close>
  and \<open>s'\<close>. \<open>failed_with w s s' p\<close> says that one of them completed as \<open>p\<close> with a
  nonzero exit code. \<open>shows_all p text\<close> says that \<open>text\<close> contains, as contiguous
  pieces, the decimal exit code, the standard output and the standard error of \<open>p\<close>.
\<close>

definition new_calls :: "state \<Rightarrow> state \<Rightarrow> (string list \<times> string) list" where
  "new_calls s s' = drop (length (run_calls s)) (run_calls s')"

definition failed_with :: "world \<Rightarrow> state \<Rightarrow> state \<Rightarrow> completed_process \<Rightarrow> bool" where
  "failed_with w s s' p \<longleftrightarrow>
     returncode p \<noteq> 0 \<and> list_ex (\<lambda>(argv, cwd). process w argv cwd = Inr p) (new_calls s s')"

definition shows_all :: "completed_process \<Rightarrow> string \<Rightarrow> bool" where
  "shows_all p text \<longleftrightarrow>
     sublist (str_int (returncode p)) text \<and> sublist (stdout p) text \<and> sublist (stderr p) text"

subsection \<open>Example worlds\<close>

text \<open>
  A project directory \<^verbatim>\<open>/nf\<close> holding a launch script and a \<^verbatim>\<open>Makefile\<close> with the
  given text; every process exits with the given code, having written \<^verbatim>\<open>out\<close> and
  \<^verbatim>\<open>err\<close>.
\<close>

definition example_world :: "string \<Rightarrow> int \<Rightarrow> world" where
  "example_world content code =
     \<lparr>node = (\<lambda>p. if p = ''/nf'' then Some Directory
                  else if p = ''/nf/Makefile'' then Some (RegularFile (Inr content))
                  else if p = ''/nf/launch.sh'' then Some (RegularFile (Inr []))
                  else None),
      expanduser = (\<lambda>p. p),
      process = (\<lambda>argv cwd. Inr \<lparr>returncode = code, stdout = ''out'', stderr = ''err''\<rparr>)\<rparr>"

definition example_state :: state where
  "example_state = \<lparr>NEXTFLOW_DIR = ''/nf'', run_calls = []\<rparr>"

text \<open>
  The \<^verbatim>\<open>Makefile\<close> with the targets \<^verbatim>\<open>test\<close> and \<^verbatim>\<open>build\<close>, each followed by
  a recipe line that starts with a tab.
\<close>

definition scenario_makefile :: string where
  "scenario_makefile =
     ''test:\<newline>'' @ [CHR 0x09] @ ''pytest\<newline>build:\<newline>'' @ [CHR 0x09] @ ''echo hi\<newline>''"

text \<open>
  Two variants: a world where every \<^verbatim>\<open>subprocess.run\<close> call raises, and one where
  the \<^verbatim>\<open>Makefile\<close> exists but cannot be read.
\<close>

definition raising_world :: "string \<Rightarrow> world" where
  "raising_world content =
     (example_world content 0)
       \<lparr>process := (\<lambda>argv cwd. Inl ''[Errno 2] No such file or directory: make'')\<rparr>"

definition unreadable_world :: world where
  "unreadable_world =
     (example_world [] 0)
       \<lparr>node := (\<lambda>p. if p = ''/nf/Makefile''
                      then Some (RegularFile (Inl ''[Errno 13] Permission denied''))
                      else None)\<rparr>"

section \<open>Properties\<close>

subsection \<open>Character classes and the scan\<close>

lemma name_char_not_space: "is_name_char c \<Longrightarrow> \<not> is_space c"
  by (auto simp: is_name_char_def is_space_def less_eq_char_def)

lemma name_char_not_newline: "is_name_char c \<Longrightarrow> c \<noteq> newline"
  by (auto simp: is_name_char_def newline_def less_eq_char_def)

lemma name_char_not_colon: "is_name_char c \<Longrightarrow> c \<noteq> CHR '':''"
  by (auto simp: is_name_char_def less_eq_char_def)

lemma name_char_not_hash: "is_name_char c \<Longrightarrow> c \<noteq> CHR ''#''"
  by (auto simp: is_name_char_def less_eq_char_def)

lemma space_newline: "is_space newline"
  by (simp add: is_space_def newline_def less_eq_char_def)

lemma hash_not_space: "\<not> is_space (CHR ''#'')"
  by (simp add: is_space_def less_eq_char_def)

lemma colon_not_newline: "CHR '':'' \<noteq> newline"
  by (simp add: newline_def)

lemma hash_not_newline: "CHR ''#'' \<noteq> newline"
  by (simp add: newline_def)

lemma match_here_newline: "match_here (newline # u) = None"
proof -
  have "\<not> is_name_char newline"
    using name_char_not_newline by blast
  then show ?thesis by (simp add: match_here_def)
qed

lemma findall_from_newline: "findall_from b (newline # u) = findall_from True u"
  by (simp add: findall_from.simps(2) match_here_newline)

lemma findall_from_False: "findall_from False s = rest_scan s"
  by (induction s) (simp_all add: findall_from.simps(2) rest_scan_def)

lemma findall_from_eol: "r = [] \<or> hd r = newline \<Longrightarrow> findall_from b r = rest_scan r"
  by (cases r) (auto simp: findall_from_newline rest_scan_def)

lemma match_tail_not_name: "match_tail (c # cs) = Some r \<Longrightarrow> \<not> is_name_char c"
  using name_char_not_space [of c] name_char_not_hash [of c]
  by (auto split: if_splits)

lemma no_match_scan: "match_here s = None \<Longrightarrow> findall_from True s = rest_scan s"
proof (cases s)
  case Nil
  then show ?thesis by (simp add: rest_scan_def)
next
  case (Cons c cs)
  assume "match_here s = None"
  with Cons have "findall_from True s = findall_from (c = newline) cs"
    by (simp add: findall_from.simps(2))
  also have "\<dots> = rest_scan s"
    using Cons by (cases "c = newline") (simp_all add: findall_from_False rest_scan_def)
  finally show ?thesis .
qed

lemma not_name_no_match: "s = [] \<or> \<not> is_name_char (hd s) \<Longrightarrow> match_here s = None"
  by (cases s) (auto simp: match_here_def)

lemma match_tail_scan: "match_tail t = Some r \<Longrightarrow> findall_from b r = rest_scan t"
proof (induction t arbitrary: r b)
  case Nil
  then show ?case by (simp add: rest_scan_def)
next
  case (Cons c cs)
  show ?case
  proof (cases "is_space c")
    case sp: True
    show ?thesis
    proof (cases "match_tail cs")
      case None
      with sp Cons.prems have c: "c = newline" and r: "r = c # cs"
        by (auto split: if_splits)
      then show ?thesis
        by (simp add: findall_from_newline rest_scan_def)
    next
      case (Some r')
      with sp Cons.prems have r: "r = r'" by simp
      have ih: "findall_from b r = rest_scan cs"
        using Cons.IH Some r by simp
      show ?thesis
      proof (cases "c = newline")
        case True
        have "cs = [] \<or> \<not> is_name_char (hd cs)"
        proof (cases cs)
          case Nil
          then show ?thesis by simp
        next
          case (Cons d ds)
          with Some have "\<not> is_name_char d"
            using match_tail_not_name by blast
          with Cons show ?thesis by simp
        qed
        then have "match_here cs = None"
          by (rule not_name_no_match)
        then have "findall_from True cs = rest_scan cs"
          by (rule no_match_scan)
        with True ih show ?thesis by (simp add: rest_scan_def)
      next
        case False
        with ih show ?thesis by (simp add: rest_scan_def)
      qed
    qed
  next
    case False
    with Cons.prems have c: "c = CHR ''#''" and r: "r = dropWhile (\<lambda>x. x \<noteq> newline) cs"
      by (auto split: if_splits)
    have "findall_from b r = rest_scan r"
      unfolding r using hd_dropWhile [of "\<lambda>x. x \<noteq> newline" cs]
      by (intro findall_from_eol) auto
    also have "\<dots> = rest_scan (c # cs)"
      using c r hash_not_newline by (simp add: rest_scan_def)
    finally show ?thesis .
  qed
qed


lemma takeWhile_name_line:
  "takeWhile is_name_char (takeWhile (\<lambda>x. x \<noteq> newline) s) = takeWhile is_name_char s"
  by (induction s) (auto dest: name_char_not_newline)

lemma dropWhile_name_line:
  "dropWhile is_name_char (takeWhile (\<lambda>x. x \<noteq> newline) s)
     = takeWhile (\<lambda>x. x \<noteq> newline) (dropWhile is_name_char s)"
  by (induction s) (auto dest: name_char_not_newline)

lemma dropWhile_newline_name:
  "dropWhile (\<lambda>x. x \<noteq> newline) (dropWhile is_name_char s) = dropWhile (\<lambda>x. x \<noteq> newline) s"
  by (induction s) (auto dest: name_char_not_newline)

lemma match_tail_line:
  "match_tail t \<noteq> None \<longleftrightarrow> tail_ok (takeWhile (\<lambda>x. x \<noteq> newline) t)"
proof (induction t)
  case Nil
  then show ?case by (simp add: tail_ok_def)
next
  case (Cons c cs)
  show ?case
  proof (cases "is_space c")
    case True
    then show ?thesis
      using Cons by (cases "match_tail cs") (auto simp: tail_ok_def)
  next
    case False
    then have "c \<noteq> newline" using space_newline by auto
    with False show ?thesis by (simp add: tail_ok_def)
  qed
qed

lemma match_here_line_target:
  "map_option fst (match_here s) = line_target (takeWhile (\<lambda>x. x \<noteq> newline) s)"
proof (cases "dropWhile is_name_char s")
  case Nil
  then show ?thesis
    by (simp add: match_here_def line_target_def takeWhile_name_line dropWhile_name_line
          Let_def del: dropWhile_eq_Nil_conv)
next
  case (Cons c t)
  show ?thesis
  proof (cases "c = CHR '':''")
    case True
    have "match_tail t \<noteq> None \<longleftrightarrow> tail_ok (takeWhile (\<lambda>x. x \<noteq> newline) t)"
      by (rule match_tail_line)
    with Cons True colon_not_newline show ?thesis
      by (cases "match_tail t")
         (auto simp: match_here_def line_target_def takeWhile_name_line dropWhile_name_line
            tail_ok_def Let_def)
  next
    case False
    with Cons show ?thesis
      by (auto simp: match_here_def line_target_def takeWhile_name_line dropWhile_name_line
            Let_def)
  qed
qed

lemma match_scan:
  assumes "match_here s = Some (n, r)"
  shows "findall_from True s = n # rest_scan s"
proof -
  from assms obtain t where rest: "dropWhile is_name_char s = CHR '':'' # t"
    and t: "match_tail t = Some r"
    by (auto simp: match_here_def Let_def split: if_splits list.splits option.splits)
  from assms have "s \<noteq> []" by (auto simp: match_here_def)
  then obtain c cs where s: "s = c # cs" by (cases s) auto
  have "findall_from True s
          = n # findall_from (last (take (length s - length r) s) = newline) r"
    using assms unfolding s by (simp add: findall_from.simps(2))
  also have "findall_from (last (take (length s - length r) s) = newline) r = rest_scan t"
    using t by (rule match_tail_scan)
  also have "rest_scan t = rest_scan s"
  proof -
    have "dropWhile (\<lambda>x. x \<noteq> newline) s
            = dropWhile (\<lambda>x. x \<noteq> newline) (dropWhile is_name_char s)"
      by (simp add: dropWhile_newline_name)
    also have "\<dots> = dropWhile (\<lambda>x. x \<noteq> newline) t"
      using rest colon_not_newline by simp
    finally show ?thesis by (simp add: rest_scan_def)
  qed
  finally show ?thesis .
qed

lemma scan_step:
  "findall_from True s =
     (case line_target (takeWhile (\<lambda>x. x \<noteq> newline) s) of None \<Rightarrow> [] | Some n \<Rightarrow> [n])
       @ rest_scan s"
proof (cases "match_here s")
  case None
  then have "line_target (takeWhile (\<lambda>x. x \<noteq> newline) s) = None"
    using match_here_line_target [of s] by simp
  with None show ?thesis by (simp add: no_match_scan)
next
  case (Some a)
  obtain n r where a: "a = (n, r)" by (cases a)
  with Some have "line_target (takeWhile (\<lambda>x. x \<noteq> newline) s) = Some n"
    using match_here_line_target [of s] by simp
  with Some a show ?thesis by (simp add: match_scan)
qed

lemma findall_lines: "findall content = List.map_filter line_target (split_lines content)"
  unfolding findall_def
proof (induction content rule: split_lines.induct)
  case (1 s)
  have rest: "rest_scan s =
      List.map_filter line_target
        (case dropWhile (\<lambda>x. x \<noteq> newline) s of [] \<Rightarrow> [] | c # u \<Rightarrow> split_lines u)"
  proof (cases "dropWhile (\<lambda>x. x \<noteq> newline) s")
    case Nil
    then show ?thesis by (simp add: rest_scan_def del: dropWhile_eq_Nil_conv)
  next
    case (Cons c u)
    with 1 [OF Cons] show ?thesis by (simp add: rest_scan_def)
  qed
  show ?case
    by (subst scan_step, subst split_lines.simps)
       (simp add: rest split: option.splits)
qed

lemma line_target_iff:
  "line_target l = Some n \<longleftrightarrow>
     (\<exists>ws cmt. l = n @ '':'' @ ws @ cmt \<and> n \<noteq> [] \<and> (\<forall>c\<in>set n. is_name_char c)
        \<and> (\<forall>c\<in>set ws. is_space c) \<and> (cmt = [] \<or> hd cmt = CHR ''#''))"
proof
  assume lt: "line_target l = Some n"
  define rest where "rest = dropWhile is_name_char l"
  from lt have n: "n = takeWhile is_name_char l" and ne: "n \<noteq> []"
    and colon: "take 1 rest = '':''"
    and ok: "dropWhile is_space (drop 1 rest) = [] \<or> hd (dropWhile is_space (drop 1 rest)) = CHR ''#''"
    by (auto simp: line_target_def Let_def rest_def split: if_splits)
  from colon have rest: "rest = '':'' @ drop 1 rest"
    by (cases rest) auto
  have "l = n @ rest" by (simp add: n rest_def)
  also have "rest = '':'' @ takeWhile is_space (drop 1 rest) @ dropWhile is_space (drop 1 rest)"
    using rest by simp
  finally have "l = n @ '':'' @ takeWhile is_space (drop 1 rest) @ dropWhile is_space (drop 1 rest)" .
  moreover have "\<forall>c\<in>set n. is_name_char c"
    unfolding n by (auto dest: set_takeWhileD)
  moreover have "\<forall>c\<in>set (takeWhile is_space (drop 1 rest)). is_space c"
    by (auto dest: set_takeWhileD)
  ultimately show "\<exists>ws cmt. l = n @ '':'' @ ws @ cmt \<and> n \<noteq> [] \<and> (\<forall>c\<in>set n. is_name_char c)
        \<and> (\<forall>c\<in>set ws. is_space c) \<and> (cmt = [] \<or> hd cmt = CHR ''#'')"
    using ne ok by blast
next
  assume "\<exists>ws cmt. l = n @ '':'' @ ws @ cmt \<and> n \<noteq> [] \<and> (\<forall>c\<in>set n. is_name_char c)
        \<and> (\<forall>c\<in>set ws. is_space c) \<and> (cmt = [] \<or> hd cmt = CHR ''#'')"
  then obtain ws cmt where l: "l = n @ CHR '':'' # ws @ cmt" and ne: "n \<noteq> []"
    and nm: "\<forall>c\<in>set n. is_name_char c" and sp: "\<forall>c\<in>set ws. is_space c"
    and cm: "cmt = [] \<or> hd cmt = CHR ''#''"
    by auto
  have nc: "\<not> is_name_char (CHR '':'')"
    using name_char_not_colon by blast
  have tw: "takeWhile is_name_char l = n"
    unfolding l using nm nc by (simp add: takeWhile_tail)
  have dw: "dropWhile is_name_char l = CHR '':'' # ws @ cmt"
    unfolding l using nm nc by (simp add: dropWhile_append2)
  have "dropWhile is_space cmt = cmt"
    using cm hash_not_space by (cases cmt) auto
  then have ds: "dropWhile is_space (ws @ cmt) = cmt"
    using sp by (simp add: dropWhile_append2)
  show "line_target l = Some n"
    using ne cm by (simp add: line_target_def tw dw ds del: dropWhile_eq_Nil_conv)
qed

subsection \<open>Discovery and process reports: auxiliary facts\<close>

lemma targets_of_readable:
  assumes "node w (os_path_join (NEXTFLOW_DIR s) ''Makefile'') = Some (RegularFile (Inr content))"
  shows "get_makefile_targets w s = findall content"
  using assms by (simp add: get_makefile_targets_def os_path_isfile_def read_text_def)

lemma shows_allI:
  assumes "text = pre @ str_int (returncode p) @ sepa @ stdout p @ sepb @ stderr p"
  shows "shows_all p text"
proof -
  have "text = pre @ str_int (returncode p) @ (sepa @ stdout p @ sepb @ stderr p)"
    using assms by simp
  then have 1: "sublist (str_int (returncode p)) text"
    unfolding sublist_def by blast
  have "text = (pre @ str_int (returncode p) @ sepa) @ stdout p @ (sepb @ stderr p)"
    using assms by simp
  then have 2: "sublist (stdout p) text"
    unfolding sublist_def by blast
  have "text = (pre @ str_int (returncode p) @ sepa @ stdout p @ sepb) @ stderr p @ []"
    using assms by simp
  then have 3: "sublist (stderr p) text"
    unfolding sublist_def by blast
  from 1 2 3 show ?thesis by (simp add: shows_all_def)
qed

lemma run_make_command_failed:
  assumes "failed_with w s (snd (run_make_command w s command)) p"
  shows "fst (run_make_command w s command) =
           (''Command '' @ apostrophe @ ''make '' @ command @ apostrophe
              @ '' failed with exit code '') @ str_int (returncode p)
              @ '':\<newline>Stdout: '' @ stdout p @ ''\<newline>Stderr: '' @ stderr p"
  using assms
  by (auto simp: run_make_command_def failed_with_def new_calls_def subprocess_run_def Let_def
        split: if_splits sum.splits)

lemma run_specific_test_failed:
  assumes "failed_with w s (snd (run_specific_test w s test_path)) p"
  shows "fst (run_specific_test w s test_path) =
           ''Test failed with exit code '' @ str_int (returncode p)
              @ '':\<newline>Stdout: '' @ stdout p @ ''\<newline>Stderr: '' @ stderr p"
  using assms
  by (auto simp: run_specific_test_def failed_with_def new_calls_def subprocess_run_def
        split: if_splits sum.splits)

lemma build_nextflow_failed:
  assumes "failed_with w s (snd (build_nextflow w s)) p"
  shows "fst (build_nextflow w s) =
           ''Build failed with exit code '' @ str_int (returncode p)
              @ '':\<newline>Stdout: '' @ stdout p @ ''\<newline>Stderr: '' @ stderr p"
  using assms
  by (auto simp: build_nextflow_def failed_with_def new_calls_def subprocess_run_def Let_def
        split: if_splits sum.splits)

lemma run_integration_tests_failed:
  assumes "failed_with w s (snd (run_integration_tests w s)) p"
  shows "fst (run_integration_tests w s) =
           ''Integration tests failed with exit code '' @ str_int (returncode p)
              @ '':\<newline>Stdout: '' @ stdout p @ ''\<newline>Stderr: '' @ stderr p"
  using assms
  by (auto simp: run_integration_tests_def failed_with_def new_calls_def subprocess_run_def
        split: if_splits sum.splits)

lemma run_plugin_test_failed:
  assumes "failed_with w s (snd (run_plugin_test w s module class_name)) p"
  shows "fst (run_plugin_test w s module class_name) =
           ''Plugin test failed with exit code '' @ str_int (returncode p)
              @ '':\<newline>Stdout: '' @ stdout p @ ''\<newline>Stderr: '' @ stderr p"
  using assms
  by (auto simp: run_plugin_test_def failed_with_def new_calls_def subprocess_run_def Let_def
        split: if_splits sum.splits option.splits)

lemma get_nextflow_version_failed:
  assumes "failed_with w s (snd (get_nextflow_version w s)) p"
  shows "fst (get_nextflow_version w s) =
           ''Error getting version. Exit code '' @ str_int (returncode p) @ '': '' @ stderr p"
  using assms
  by (auto simp: get_nextflow_version_def failed_with_def new_calls_def subprocess_run_def
        split: if_splits sum.splits)

lemma launch_calls:
  "run_calls (snd (launch w s command)) =
     run_calls s @ [([''./launch.sh''] @ (if command \<noteq> [] then py_split command else []),
                     NEXTFLOW_DIR s)]"
  by (auto simp: launch_def subprocess_run_def Let_def split: sum.splits)

lemma launch_failed:
  assumes "failed_with w s (snd (launch w s command)) p"
  shows "fst (launch w s command) =
           ''Development Nextflow execution failed with exit code '' @ str_int (returncode p)
              @ '':\<newline>Stdout: '' @ stdout p @ ''\<newline>Stderr: '' @ stderr p"
  using assms
  by (auto simp: launch_def failed_with_def new_calls_def subprocess_run_def Let_def
        split: if_splits sum.splits)

lemma run_development_nextflow_failed:
  assumes "failed_with w s (snd (run_development_nextflow w s command)) p"
  shows "shows_all p (fst (run_development_nextflow w s command))"
proof -
  let ?dir = "NEXTFLOW_DIR s"
  let ?s1 = "snd (subprocess_run w s [''make'', ''compile''])"
  have launch_case: "shows_all p (fst (launch w s0 command))"
    if "failed_with w s0 (snd (launch w s0 command)) p" for s0
    by (rule shows_allI [where pre = "''Development Nextflow execution failed with exit code ''"
          and sepa = "'':\<newline>Stdout: ''" and sepb = "''\<newline>Stderr: ''"])
       (use that launch_failed in simp)
  show ?thesis
  proof (cases "os_path_isfile w (os_path_join ?dir ''launch.sh'')")
    case False
    with assms show ?thesis
      by (simp add: run_development_nextflow_def failed_with_def new_calls_def)
  next
    case present: True
    show ?thesis
    proof (cases "''compile'' \<in> set (get_makefile_targets w s)")
      case False
      with present have "run_development_nextflow w s command = launch w s command"
        by (simp add: run_development_nextflow_def)
      with assms launch_case show ?thesis by simp
    next
      case comp: True
      show ?thesis
      proof (cases "process w [''make'', ''compile''] ?dir")
        case (Inl e)
        with present comp assms show ?thesis
          by (simp add: run_development_nextflow_def failed_with_def new_calls_def
                subprocess_run_def)
      next
        case (Inr q)
        show ?thesis
        proof (cases "returncode q = 0")
          case False
          with present comp Inr have res: "run_development_nextflow w s command =
              (''Failed to compile Nextflow before running:\<newline>Exit code: ''
                 @ str_int (returncode q)
                 @ ''\<newline>Stdout: '' @ stdout q @ ''\<newline>Stderr: '' @ stderr q, ?s1)"
            by (simp add: run_development_nextflow_def subprocess_run_def)
          with assms Inr have "q = p"
            by (simp add: failed_with_def new_calls_def subprocess_run_def)
          with res show ?thesis
            by (intro shows_allI [where
                  pre = "''Failed to compile Nextflow before running:\<newline>Exit code: ''"
                  and sepa = "''\<newline>Stdout: ''" and sepb = "''\<newline>Stderr: ''"]) simp
        next
          case True
          with present comp Inr have res:
            "run_development_nextflow w s command = launch w ?s1 command"
            by (simp add: run_development_nextflow_def subprocess_run_def)
          have dir: "NEXTFLOW_DIR ?s1 = ?dir"
            by (simp add: subprocess_run_def)
          have calls: "new_calls s (snd (launch w ?s1 command)) =
              ([''make'', ''compile''], ?dir) # new_calls ?s1 (snd (launch w ?s1 command))"
            by (simp add: new_calls_def launch_calls subprocess_run_def)
          from assms res calls Inr True have "failed_with w ?s1 (snd (launch w ?s1 command)) p"
            by (auto simp: failed_with_def)
          with launch_case res show ?thesis by simp
        qed
      qed
    qed
  qed
qed

lemma bullet_eta: "(@) ''- '' = (\<lambda>target. CHR ''-'' # CHR '' '' # target)"
  by (rule ext) simp

section \<open>The claims\<close>

subsection \<open>C1: which names are discovered\<close>

text \<open>
  Claim C1, amended. When the \<^verbatim>\<open>Makefile\<close> under the build directory can be read, a
  name is among the discovered targets if and only if some line of the file consists
  of the name (one or more characters of \<^verbatim>\<open>[a-zA-Z0-9_-]\<close>, starting the line), a
  colon, any whitespace, and then either nothing or a comment starting with \<^verbatim>\<open>#\<close>.
  In particular a line that is exactly \<^verbatim>\<open>foo:\<close> yields \<^verbatim>\<open>foo\<close>, and a file whose
  nonempty lines all start with whitespace (such as the indented \<^verbatim>\<open>  foo:\<close>) yields
  no target at all.
\<close>

theorem discovery_iff_declaration_line:
  assumes "node w (os_path_join (NEXTFLOW_DIR s) ''Makefile'') = Some (RegularFile (Inr content))"
  shows "(n \<in> set (get_makefile_targets w s) \<longleftrightarrow>
            (\<exists>l\<in>set (split_lines content). \<exists>ws cmt.
               l = n @ '':'' @ ws @ cmt \<and> n \<noteq> [] \<and> (\<forall>c\<in>set n. is_name_char c)
               \<and> (\<forall>c\<in>set ws. is_space c) \<and> (cmt = [] \<or> hd cmt = CHR ''#'')))
         \<and> (''foo:'' \<in> set (split_lines content) \<longrightarrow> ''foo'' \<in> set (get_makefile_targets w s))
         \<and> ((\<forall>l\<in>set (split_lines content). l \<noteq> [] \<longrightarrow> is_space (hd l))
              \<longrightarrow> get_makefile_targets w s = [])"
proof -
  have targets: "get_makefile_targets w s = List.map_filter line_target (split_lines content)"
    using assms by (simp add: targets_of_readable findall_lines)
  have mem: "m \<in> set (get_makefile_targets w s)
               \<longleftrightarrow> (\<exists>l\<in>set (split_lines content). line_target l = Some m)" for m
    unfolding targets by (force simp: List.map_filter_def)
  have foo: "line_target ''foo:'' = Some ''foo''"
    by code_simp
  have indented: "line_target l = None" if "l \<noteq> [] \<longrightarrow> is_space (hd l)" for l
  proof (cases l)
    case Nil
    then show ?thesis by (simp add: line_target_def)
  next
    case (Cons c cs)
    with that have "\<not> is_name_char c"
      using name_char_not_space by auto
    with Cons show ?thesis by (simp add: line_target_def)
  qed
  have "get_makefile_targets w s = []"
    if "\<forall>l\<in>set (split_lines content). l \<noteq> [] \<longrightarrow> is_space (hd l)"
  proof (rule ccontr)
    assume "get_makefile_targets w s \<noteq> []"
    then obtain m where "m \<in> set (get_makefile_targets w s)"
      by (cases "get_makefile_targets w s") auto
    with mem obtain l where "l \<in> set (split_lines content)" "line_target l = Some m"
      by blast
    with that indented show False by fastforce
  qed
  with mem foo show ?thesis
    unfolding line_target_iff [symmetric] by blast
qed

theorem discovery_iff_declaration_line_witness:
  "''build'' \<in> set (get_makefile_targets (example_world ''build:  # all'' 0) example_state)"
proof -
  let ?c = "''build:  # all''"
  have mk: "node (example_world ?c 0) (os_path_join (NEXTFLOW_DIR example_state) ''Makefile'')
                = Some (RegularFile (Inr ?c))"
    by (simp add: example_world_def example_state_def os_path_join_def)
  have line: "?c \<in> set (split_lines ?c)"
    by code_simp
  have name: "\<forall>c\<in>set ''build''. is_name_char c"
    by code_simp
  have sp: "\<forall>c\<in>set ''  ''. is_space c"
    by code_simp
  have "\<exists>ws cmt. ?c = ''build'' @ '':'' @ ws @ cmt \<and> ''build'' \<noteq> []
           \<and> (\<forall>c\<in>set ''build''. is_name_char c) \<and> (\<forall>c\<in>set ws. is_space c)
           \<and> (cmt = [] \<or> hd cmt = CHR ''#'')"
    using name sp by (intro exI [of _ "''  ''"] exI [of _ "''# all''"]) simp
  with line show ?thesis
    using discovery_iff_declaration_line [OF mk, of "''build''"] by blast
qed

text \<open>
  The claim as first stated asks the line, apart from a trailing comment, to be exactly
  the name and the colon. The line \<^verbatim>\<open>foo: \<close>, with a space after the colon, is
  neither \<^verbatim>\<open>foo:\<close> nor \<^verbatim>\<open>foo:\<close> followed by a comment, and yet \<^verbatim>\<open>foo\<close> is
  discovered: the pattern allows whitespace after the colon.
\<close>

theorem discovery_strict_line_counterexample:
  "get_makefile_targets (example_world ''foo: '' 0) example_state = [''foo'']
   \<and> split_lines ''foo: '' = [''foo: '']
   \<and> ''foo: '' \<noteq> ''foo:'' \<and> \<not> prefix ''foo:#'' ''foo: ''"
  by code_simp

subsection \<open>C2: repeated declarations\<close>

text \<open>
  Claim C2, amended. The discovered targets are a list, not a set: when the
  \<^verbatim>\<open>Makefile\<close> can be read, the result has one entry for every declaration line, in
  the order of the lines, so a name declared on \<open>k\<close> lines occurs \<open>k\<close> times.
\<close>

theorem discovery_one_entry_per_line:
  assumes "node w (os_path_join (NEXTFLOW_DIR s) ''Makefile'') = Some (RegularFile (Inr content))"
  shows "get_makefile_targets w s = List.map_filter line_target (split_lines content)"
  using assms by (simp add: targets_of_readable findall_lines)

theorem discovery_one_entry_per_line_witness:
  "get_makefile_targets (example_world ''all:\<newline>  x:\<newline>all: # again'' 0) example_state
     = [''all'', ''all'']"
proof -
  let ?c = "''all:\<newline>  x:\<newline>all: # again''"
  have mk: "node (example_world ?c 0) (os_path_join (NEXTFLOW_DIR example_state) ''Makefile'')
                = Some (RegularFile (Inr ?c))"
    by (simp add: example_world_def example_state_def os_path_join_def)
  have "List.map_filter line_target (split_lines ?c) = [''all'', ''all'']"
    by code_simp
  then show ?thesis
    using discovery_one_entry_per_line [OF mk] by simp
qed

text \<open>
  A \<^verbatim>\<open>Makefile\<close> with the line \<^verbatim>\<open>foo:\<close> twice yields \<^verbatim>\<open>foo\<close> twice.
\<close>

theorem discovery_duplicates_counterexample:
  "get_makefile_targets (example_world ''foo:\<newline>foo:\<newline>'' 0) example_state = [''foo'', ''foo'']
   \<and> \<not> distinct (get_makefile_targets (example_world ''foo:\<newline>foo:\<newline>'' 0) example_state)"
  by code_simp

subsection \<open>C3: the report of a failed process\<close>

text \<open>
  The six tools \<^verbatim>\<open>run_make_command\<close>, \<^verbatim>\<open>build_nextflow\<close>, \<^verbatim>\<open>run_specific_test\<close>,
  \<^verbatim>\<open>run_integration_tests\<close>, \<^verbatim>\<open>run_plugin_test\<close> and
  \<^verbatim>\<open>run_development_nextflow\<close> do what the claim says: whenever a
  \<^verbatim>\<open>subprocess.run\<close> call of theirs returns a completed process with a nonzero exit
  code, the returned text contains the exit code, the captured standard output and
  the captured standard error, each unchanged.
\<close>

lemma sibling_reports_show_all:
  "(failed_with w s (snd (run_make_command w s command)) p
      \<longrightarrow> shows_all p (fst (run_make_command w s command)))
   \<and> (failed_with w s (snd (build_nextflow w s)) p
      \<longrightarrow> shows_all p (fst (build_nextflow w s)))
   \<and> (failed_with w s (snd (run_specific_test w s test_path)) p
      \<longrightarrow> shows_all p (fst (run_specific_test w s test_path)))
   \<and> (failed_with w s (snd (run_integration_tests w s)) p
      \<longrightarrow> shows_all p (fst (run_integration_tests w s)))
   \<and> (failed_with w s (snd (run_plugin_test w s module class_name)) p
      \<longrightarrow> shows_all p (fst (run_plugin_test w s module class_name)))
   \<and> (failed_with w s (snd (run_development_nextflow w s args)) p
      \<longrightarrow> shows_all p (fst (run_development_nextflow w s args)))"
proof (intro conjI impI)
  assume "failed_with w s (snd (run_make_command w s command)) p"
  then show "shows_all p (fst (run_make_command w s command))"
    by (intro shows_allI [where pre = "''Command '' @ apostrophe @ ''make '' @ command
          @ apostrophe @ '' failed with exit code ''"
          and sepa = "'':\<newline>Stdout: ''" and sepb = "''\<newline>Stderr: ''"])
       (simp add: run_make_command_failed)
next
  assume "failed_with w s (snd (build_nextflow w s)) p"
  then show "shows_all p (fst (build_nextflow w s))"
    by (intro shows_allI [where pre = "''Build failed with exit code ''"
          and sepa = "'':\<newline>Stdout: ''" and sepb = "''\<newline>Stderr: ''"])
       (simp add: build_nextflow_failed)
next
  assume "failed_with w s (snd (run_specific_test w s test_path)) p"
  then show "shows_all p (fst (run_specific_test w s test_path))"
    by (intro shows_allI [where pre = "''Test failed with exit code ''"
          and sepa = "'':\<newline>Stdout: ''" and sepb = "''\<newline>Stderr: ''"])
       (simp add: run_specific_test_failed)
next
  assume "failed_with w s (snd (run_integration_tests w s)) p"
  then show "shows_all p (fst (run_integration_tests w s))"
    by (intro shows_allI [where pre = "''Integration tests failed with exit code ''"
          and sepa = "'':\<newline>Stdout: ''" and sepb = "''\<newline>Stderr: ''"])
       (simp add: run_integration_tests_failed)
next
  assume "failed_with w s (snd (run_plugin_test w s module class_name)) p"
  then show "shows_all p (fst (run_plugin_test w s module class_name))"
    by (intro shows_allI [where pre = "''Plugin test failed with exit code ''"
          and sepa = "'':\<newline>Stdout: ''" and sepb = "''\<newline>Stderr: ''"])
       (simp add: run_plugin_test_failed)
next
  assume "failed_with w s (snd (run_development_nextflow w s args)) p"
  then show "shows_all p (fst (run_development_nextflow w s args))"
    by (rule run_development_nextflow_failed)
qed

text \<open>
  Claim C3. Every tool that runs a process is to include the exit code, the captured
  standard output and the captured standard error in its report of a nonzero exit.
  \<^verbatim>\<open>get_nextflow_version\<close> does not: where \<^verbatim>\<open>./nextflow -version\<close> exits with code
  1 having written \<^verbatim>\<open>out\<close> and \<^verbatim>\<open>err\<close>, it returns
  \<^verbatim>\<open>Error getting version. Exit code 1: err\<close>, which holds the exit code and the
  standard error but not the standard output. In the same world the report of
  \<^verbatim>\<open>run_integration_tests\<close> holds all three.
\<close>

theorem get_nextflow_version_omits_stdout:
  "failed_with (example_world [] 1) example_state
       (snd (get_nextflow_version (example_world [] 1) example_state))
       \<lparr>returncode = 1, stdout = ''out'', stderr = ''err''\<rparr>
   \<and> fst (get_nextflow_version (example_world [] 1) example_state)
       = ''Error getting version. Exit code 1: err''
   \<and> \<not> sublist ''out'' (fst (get_nextflow_version (example_world [] 1) example_state))
   \<and> \<not> shows_all \<lparr>returncode = 1, stdout = ''out'', stderr = ''err''\<rparr>
         (fst (get_nextflow_version (example_world [] 1) example_state))
   \<and> failed_with (example_world [] 1) example_state
       (snd (run_integration_tests (example_world [] 1) example_state))
       \<lparr>returncode = 1, stdout = ''out'', stderr = ''err''\<rparr>
   \<and> shows_all \<lparr>returncode = 1, stdout = ''out'', stderr = ''err''\<rparr>
         (fst (run_integration_tests (example_world [] 1) example_state))"
  by code_simp

subsection \<open>C4: validity is membership in the discovered targets\<close>

text \<open>
  Claim C4. \<^verbatim>\<open>run_make_command\<close> goes on to run a process exactly when the command
  is a member of the targets that \<^verbatim>\<open>get_makefile_targets\<close> discovers in the same
  call, and it then runs \<^verbatim>\<open>make\<close> with that command. When a nonempty discovery does
  not contain the command, the targets listed in the rejection message are, as a set,
  the discovered ones.
\<close>

theorem validity_is_membership:
  "(run_calls (snd (run_make_command w s command)) \<noteq> run_calls s
      \<longleftrightarrow> command \<in> set (get_makefile_targets w s))
   \<and> (command \<in> set (get_makefile_targets w s) \<longrightarrow>
        new_calls s (snd (run_make_command w s command))
          = [([''make'', command], NEXTFLOW_DIR s)])
   \<and> (command \<notin> set (get_makefile_targets w s) \<and> get_makefile_targets w s \<noteq> [] \<longrightarrow>
        (\<exists>listed. set listed = set (get_makefile_targets w s)
           \<and> fst (run_make_command w s command) =
               ''Error: '' @ apostrophe @ command @ apostrophe
                 @ '' is not a valid make target. Available targets are:\<newline>''
                 @ join ''\<newline>'' (map (\<lambda>target. ''- '' @ target) listed)))"
proof (intro conjI impI)
  show "run_calls (snd (run_make_command w s command)) \<noteq> run_calls s
          \<longleftrightarrow> command \<in> set (get_makefile_targets w s)"
    by (auto simp: run_make_command_def subprocess_run_def Let_def split: sum.splits)
next
  assume "command \<in> set (get_makefile_targets w s)"
  then show "new_calls s (snd (run_make_command w s command))
               = [([''make'', command], NEXTFLOW_DIR s)]"
    by (auto simp: run_make_command_def subprocess_run_def new_calls_def Let_def
          split: sum.splits)
next
  assume a: "command \<notin> set (get_makefile_targets w s) \<and> get_makefile_targets w s \<noteq> []"
  have "set (sort (get_makefile_targets w s)) = set (get_makefile_targets w s)"
    by simp
  moreover from a have "fst (run_make_command w s command) =
      ''Error: '' @ apostrophe @ command @ apostrophe
        @ '' is not a valid make target. Available targets are:\<newline>''
        @ join ''\<newline>'' (map (\<lambda>target. ''- '' @ target) (sort (get_makefile_targets w s)))"
    by (simp add: run_make_command_def Let_def bullet_eta)
  ultimately show "\<exists>listed. set listed = set (get_makefile_targets w s)
           \<and> fst (run_make_command w s command) =
               ''Error: '' @ apostrophe @ command @ apostrophe
                 @ '' is not a valid make target. Available targets are:\<newline>''
                 @ join ''\<newline>'' (map (\<lambda>target. ''- '' @ target) listed)"
    by blast
qed

theorem validity_is_membership_witness:
  "new_calls example_state
      (snd (run_make_command (example_world ''test:\<newline>build:'' 0) example_state ''test''))
     = [([''make'', ''test''], ''/nf'')]
   \<and> run_calls (snd (run_make_command (example_world ''test:\<newline>build:'' 0) example_state ''lint''))
     = []"
proof -
  let ?w = "example_world ''test:\<newline>build:'' 0"
  have ts: "get_makefile_targets ?w example_state = [''test'', ''build'']"
    by code_simp
  have dir: "NEXTFLOW_DIR example_state = ''/nf''" "run_calls example_state = []"
    by (simp_all add: example_state_def)
  show ?thesis
    using validity_is_membership [of ?w example_state "''test''"]
      validity_is_membership [of ?w example_state "''lint''"]
    by (simp add: ts dir)
qed

subsection \<open>C5: the target chosen by the build\<close>

text \<open>
  Claim C5. \<^verbatim>\<open>build_nextflow\<close> runs \<^verbatim>\<open>make compile\<close> when \<^verbatim>\<open>compile\<close> is among the
  discovered targets; otherwise \<^verbatim>\<open>make build\<close> when \<^verbatim>\<open>build\<close> is; otherwise it runs
  nothing and returns an error that lists all discovered targets.
\<close>

theorem build_target_selection:
  "(''compile'' \<in> set (get_makefile_targets w s) \<longrightarrow>
      new_calls s (snd (build_nextflow w s)) = [([''make'', ''compile''], NEXTFLOW_DIR s)])
   \<and> (''compile'' \<notin> set (get_makefile_targets w s) \<and> ''build'' \<in> set (get_makefile_targets w s)
      \<longrightarrow> new_calls s (snd (build_nextflow w s)) = [([''make'', ''build''], NEXTFLOW_DIR s)])
   \<and> (''compile'' \<notin> set (get_makefile_targets w s) \<and> ''build'' \<notin> set (get_makefile_targets w s)
      \<longrightarrow> build_nextflow w s =
            (''Error: Neither '' @ apostrophe @ ''compile'' @ apostrophe @ '' nor ''
               @ apostrophe @ ''build'' @ apostrophe
               @ '' targets found in Makefile. Available targets are:\<newline>''
               @ join ''\<newline>''
                   (map (\<lambda>target. ''- '' @ target) (sort (get_makefile_targets w s))), s))"
  by (auto simp: build_nextflow_def subprocess_run_def new_calls_def Let_def bullet_eta
        split: sum.splits)

theorem build_target_selection_witness:
  "new_calls example_state (snd (build_nextflow (example_world ''build:\<newline>compile:'' 0) example_state))
     = [([''make'', ''compile''], ''/nf'')]
   \<and> new_calls example_state (snd (build_nextflow (example_world ''build:\<newline>clean:'' 0) example_state))
     = [([''make'', ''build''], ''/nf'')]
   \<and> build_nextflow (example_world ''clean:\<newline>all:'' 0) example_state
     = (''Error: Neither '' @ apostrophe @ ''compile'' @ apostrophe @ '' nor ''
               @ apostrophe @ ''build'' @ apostrophe
               @ '' targets found in Makefile. Available targets are:\<newline>- all\<newline>- clean'',
        example_state)"
proof -
  have a: "get_makefile_targets (example_world ''build:\<newline>compile:'' 0) example_state
             = [''build'', ''compile'']"
    by code_simp
  have b: "get_makefile_targets (example_world ''build:\<newline>clean:'' 0) example_state
             = [''build'', ''clean'']"
    by code_simp
  have c: "get_makefile_targets (example_world ''clean:\<newline>all:'' 0) example_state
             = [''clean'', ''all'']"
    by code_simp
  have srt: "sort [''clean'', ''all''] = [''all'', ''clean'']"
    by code_simp
  have dir: "NEXTFLOW_DIR example_state = ''/nf''"
    by (simp add: example_state_def)
  show ?thesis
    using build_target_selection [of "example_world ''build:\<newline>compile:'' 0" example_state]
      build_target_selection [of "example_world ''build:\<newline>clean:'' 0" example_state]
      build_target_selection [of "example_world ''clean:\<newline>all:'' 0" example_state]
    by (simp add: a b c srt dir)
qed

subsection \<open>C6: a rejected command runs nothing\<close>

text \<open>
  Claim C6. For a command that is not among the discovered targets,
  \<^verbatim>\<open>run_make_command\<close> makes no \<^verbatim>\<open>subprocess.run\<close> call and leaves the state as it
  was; it returns an error text (discovery failed, or the command is not valid).
\<close>

theorem invalid_target_runs_nothing:
  assumes "command \<notin> set (get_makefile_targets w s)"
  shows "snd (run_make_command w s command) = s
         \<and> new_calls s (snd (run_make_command w s command)) = []
         \<and> fst (run_make_command w s command) =
             (if get_makefile_targets w s = [] then
                ''Could not read Makefile targets from '' @ NEXTFLOW_DIR s
                  @ ''/Makefile. Please check if the Nextflow directory is set correctly.''
              else
                ''Error: '' @ apostrophe @ command @ apostrophe
                  @ '' is not a valid make target. Available targets are:\<newline>''
                  @ join ''\<newline>''
                      (map (\<lambda>target. ''- '' @ target) (sort (get_makefile_targets w s))))"
  using assms by (simp add: run_make_command_def new_calls_def Let_def bullet_eta)

theorem invalid_target_runs_nothing_witness:
  "run_make_command (example_world scenario_makefile 0) example_state ''lint''
     = (''Error: '' @ apostrophe @ ''lint'' @ apostrophe
          @ '' is not a valid make target. Available targets are:\<newline>- build\<newline>- test'',
        example_state)"
proof -
  let ?w = "example_world scenario_makefile 0"
  have ts: "get_makefile_targets ?w example_state = [''test'', ''build'']"
    by code_simp
  have srt: "sort [''test'', ''build''] = [''build'', ''test'']"
    by code_simp
  have "''lint'' \<notin> set (get_makefile_targets ?w example_state)"
    by (simp add: ts)
  from invalid_target_runs_nothing [OF this] show ?thesis
    by (simp add: ts srt prod_eq_iff)
qed

subsection \<open>C7: setting a missing build directory\<close>

text \<open>
  Claim C7. When the expanded path is not an existing directory,
  \<^verbatim>\<open>set_nextflow_directory\<close> returns the rejection message and the state, with the
  configured \<^verbatim>\<open>NEXTFLOW_DIR\<close>, is unchanged.
\<close>

theorem set_directory_rejects_missing:
  assumes "\<not> os_path_isdir w (expanduser w path)"
  shows "set_nextflow_directory w s path =
           (''Error: Directory '' @ apostrophe @ expanduser w path @ apostrophe
              @ '' does not exist.'', s)"
  using assms by (simp add: set_nextflow_directory_def)

theorem set_directory_rejects_missing_witness:
  "set_nextflow_directory (example_world [] 0) example_state ''/missing''
     = (''Error: Directory '' @ apostrophe @ ''/missing'' @ apostrophe @ '' does not exist.'',
        example_state)"
proof -
  have "\<not> os_path_isdir (example_world [] 0) (expanduser (example_world [] 0) ''/missing'')"
    by (simp add: os_path_isdir_def example_world_def)
  from set_directory_rejects_missing [OF this, of example_state] show ?thesis
    by (simp add: example_world_def)
qed

subsection \<open>C8: discovery never fails\<close>

text \<open>
  Claim C8. \<^verbatim>\<open>get_makefile_targets\<close> always returns a list: when the \<^verbatim>\<open>Makefile\<close>
  is missing, and when reading it raises an exception, the result is the empty list.
  In every world the result is the scan of the text when the \<^verbatim>\<open>Makefile\<close> is a
  regular file that can be read, and the empty list otherwise.
\<close>

theorem discovery_failure_is_empty:
  "(\<not> os_path_isfile w (os_path_join (NEXTFLOW_DIR s) ''Makefile'')
      \<longrightarrow> get_makefile_targets w s = [])
   \<and> (read_text w (os_path_join (NEXTFLOW_DIR s) ''Makefile'') = Inl e
      \<longrightarrow> get_makefile_targets w s = [])
   \<and> get_makefile_targets w s =
       (case node w (os_path_join (NEXTFLOW_DIR s) ''Makefile'') of
          Some (RegularFile (Inr content)) \<Rightarrow> findall content
        | _ \<Rightarrow> [])"
proof (intro conjI impI)
  assume "\<not> os_path_isfile w (os_path_join (NEXTFLOW_DIR s) ''Makefile'')"
  then show "get_makefile_targets w s = []"
    by (simp add: get_makefile_targets_def)
next
  assume "read_text w (os_path_join (NEXTFLOW_DIR s) ''Makefile'') = Inl e"
  then show "get_makefile_targets w s = []"
    by (simp add: get_makefile_targets_def Let_def)
next
  show "get_makefile_targets w s =
       (case node w (os_path_join (NEXTFLOW_DIR s) ''Makefile'') of
          Some (RegularFile (Inr content)) \<Rightarrow> findall content
        | _ \<Rightarrow> [])"
    by (simp add: get_makefile_targets_def os_path_isfile_def read_text_def Let_def
          split: option.splits fnode.splits sum.splits)
qed

theorem discovery_failure_is_empty_witness:
  "get_makefile_targets (example_world ''all:'' 0) (example_state\<lparr>NEXTFLOW_DIR := ''/gone''\<rparr>) = []
   \<and> get_makefile_targets unreadable_world example_state = []"
proof -
  let ?s = "example_state\<lparr>NEXTFLOW_DIR := ''/gone''\<rparr>"
  have absent: "\<not> os_path_isfile (example_world ''all:'' 0)
                    (os_path_join (NEXTFLOW_DIR ?s) ''Makefile'')"
    by (simp add: os_path_isfile_def os_path_join_def example_world_def)
  have denied: "read_text unreadable_world (os_path_join (NEXTFLOW_DIR example_state) ''Makefile'')
                  = Inl ''[Errno 13] Permission denied''"
    by (simp add: read_text_def os_path_join_def unreadable_world_def example_state_def)
  show ?thesis
    using discovery_failure_is_empty [of "example_world ''all:'' 0" ?s]
      discovery_failure_is_empty [of unreadable_world example_state
        "''[Errno 13] Permission denied''"]
      absent denied
    by simp
qed

subsection \<open>C9: listing when nothing was discovered\<close>

text \<open>
  Claim C9. When discovery yields no target, \<^verbatim>\<open>list_make_targets\<close> returns the
  ``Could not find any make targets'' message and not a listing.
\<close>

theorem no_targets_listing:
  assumes "get_makefile_targets w s = []"
  shows "list_make_targets w s =
           ''Could not find any make targets in '' @ NEXTFLOW_DIR s
             @ ''/Makefile. Please check if the Nextflow directory is set correctly.''
         \<and> \<not> prefix ''Available make targets:'' (list_make_targets w s)"
  using assms by (simp add: list_make_targets_def)

theorem no_targets_listing_witness:
  "list_make_targets (example_world ''all:'' 0) (example_state\<lparr>NEXTFLOW_DIR := ''/gone''\<rparr>)
     = ''Could not find any make targets in /gone/Makefile. Please check if the Nextflow directory is set correctly.''"
proof -
  have "get_makefile_targets (example_world ''all:'' 0) (example_state\<lparr>NEXTFLOW_DIR := ''/gone''\<rparr>)
          = []"
    by code_simp
  from no_targets_listing [OF this] show ?thesis
    by simp
qed

subsection \<open>C10: a failed compilation stops the launch\<close>

text \<open>
  Claim C10. In \<^verbatim>\<open>run_development_nextflow\<close>, when \<^verbatim>\<open>compile\<close> is among the
  discovered targets and \<^verbatim>\<open>make compile\<close> exits with a nonzero code or raises, no call
  of \<^verbatim>\<open>./launch.sh\<close> is made; when the launch script exists, the only process run is
  \<^verbatim>\<open>make compile\<close> and the text returned is that of the compilation failure.
\<close>

theorem failed_compile_blocks_launch:
  assumes "''compile'' \<in> set (get_makefile_targets w s)"
    and "case process w [''make'', ''compile''] (NEXTFLOW_DIR s) of
           Inl e \<Rightarrow> True | Inr p \<Rightarrow> returncode p \<noteq> 0"
  shows "\<not> list_ex (\<lambda>(argv, cwd). take 1 argv = [''./launch.sh''])
             (new_calls s (snd (run_development_nextflow w s command)))
         \<and> (os_path_isfile w (os_path_join (NEXTFLOW_DIR s) ''launch.sh'') \<longrightarrow>
              new_calls s (snd (run_development_nextflow w s command))
                = [([''make'', ''compile''], NEXTFLOW_DIR s)]
              \<and> fst (run_development_nextflow w s command) =
                  (case process w [''make'', ''compile''] (NEXTFLOW_DIR s) of
                     Inl e \<Rightarrow> ''Exception during compilation: '' @ e
                   | Inr p \<Rightarrow>
                       ''Failed to compile Nextflow before running:\<newline>Exit code: ''
                         @ str_int (returncode p)
                         @ ''\<newline>Stdout: '' @ stdout p @ ''\<newline>Stderr: '' @ stderr p))"
  using assms
  by (auto simp: run_development_nextflow_def subprocess_run_def new_calls_def Let_def
        split: sum.splits)

theorem failed_compile_blocks_launch_witness:
  "run_development_nextflow (example_world ''compile:'' 2) example_state ''run hello.nf''
     = (''Failed to compile Nextflow before running:\<newline>Exit code: 2\<newline>Stdout: out\<newline>Stderr: err'',
        example_state\<lparr>run_calls := [([''make'', ''compile''], ''/nf'')]\<rparr>)
   \<and> run_development_nextflow (raising_world ''compile:'') example_state ''run hello.nf''
     = (''Exception during compilation: [Errno 2] No such file or directory: make'',
        example_state\<lparr>run_calls := [([''make'', ''compile''], ''/nf'')]\<rparr>)"
proof -
  let ?w = "example_world ''compile:'' 2" and ?r = "raising_world ''compile:''"
  have ts: "''compile'' \<in> set (get_makefile_targets ?w example_state)"
    "''compile'' \<in> set (get_makefile_targets ?r example_state)"
    by code_simp+
  have bad: "case process ?w [''make'', ''compile''] (NEXTFLOW_DIR example_state) of
               Inl e \<Rightarrow> True | Inr p \<Rightarrow> returncode p \<noteq> 0"
    "case process ?r [''make'', ''compile''] (NEXTFLOW_DIR example_state) of
               Inl e \<Rightarrow> True | Inr p \<Rightarrow> returncode p \<noteq> 0"
    by (simp_all add: example_world_def raising_world_def)
  have launch: "os_path_isfile ?w (os_path_join (NEXTFLOW_DIR example_state) ''launch.sh'')"
    "os_path_isfile ?r (os_path_join (NEXTFLOW_DIR example_state) ''launch.sh'')"
    by (simp_all add: os_path_isfile_def os_path_join_def example_world_def raising_world_def
          example_state_def)
  have two: "str_int 2 = ''2''"
    by code_simp
  have st: "snd (run_development_nextflow ?w example_state ''run hello.nf'')
              = example_state\<lparr>run_calls := [([''make'', ''compile''], ''/nf'')]\<rparr>"
    "snd (run_development_nextflow ?r example_state ''run hello.nf'')
              = example_state\<lparr>run_calls := [([''make'', ''compile''], ''/nf'')]\<rparr>"
    by code_simp+
  show ?thesis
    using failed_compile_blocks_launch [OF ts(1) bad(1), of "''run hello.nf''"]
      failed_compile_blocks_launch [OF ts(2) bad(2), of "''run hello.nf''"] launch st two
    by (simp add: prod_eq_iff example_world_def raising_world_def)
qed

end
